theory Spec2Isabelle
  imports Complex_Main "HOL-Library.Word" "HOL-Library.Sublist" "HOL-Library.AList"
begin

unbundle bit_operations_syntax

section \<open>Python values\<close>

text \<open>
  A Python \<open>str\<close> is modelled by the list of bytes of its UTF-8 encoding, so that
  \<open>s.encode('utf-8')\<close> and \<open>s.encode()\<close> are the identity on the model. \<open>bytes\<close> are
  byte lists as well.
\<close>

type_synonym bytes = string

text \<open>
  What \<open>response.json()\<close> can return: \<open>None\<close>, a \<open>bool\<close>, an \<open>int\<close>, a \<open>float\<close>, a
  \<open>str\<close>, a \<open>list\<close> or a \<open>dict\<close> with \<open>str\<close> keys. A dict is an association list that
  is read with \<open>map_of\<close>. A float is the rational it denotes; \<open>nan\<close> and the
  infinities behave in every operation below as a non-zero float does.
\<close>

datatype json =
    JNull
  | JBool bool
  | JInt int
  | JFloat rat
  | JStr string
  | JList "json list"
  | JObj "(string \<times> json) list"

text \<open>
  An f-string is the list of its parts: literal text and \<open>{value}\<close> fields, a field
  standing for \<open>str(value)\<close>.
\<close>

datatype fpart = Lit string | Fmt json

text \<open>
  The exceptions of the program: \<open>Exception\<close> is what the program raises itself, with
  its message; the others are raised by Python's operations and by the libraries
  (\<open>RequestException\<close>, \<open>JSONDecodeError\<close> and \<open>HTTPError\<close> by \<open>requests\<close>,
  \<open>DriveHttpError\<close> by the Drive client, \<open>ValueError\<close> by the credentials parser).
\<close>

datatype error =
    Exception "fpart list"
  | AttributeError
  | TypeError
  | KeyError
  | IndexError
  | OSError
  | ValueError
  | RequestException
  | JSONDecodeError
  | HTTPError int
  | DriveHttpError

definition bindE :: "error + 'a \<Rightarrow> ('a \<Rightarrow> error + 'b) \<Rightarrow> error + 'b" where
  "bindE m f = (case m of Inl e \<Rightarrow> Inl e | Inr v \<Rightarrow> f v)"

text \<open>Truth value of a Python object, as \<open>if x\<close>, \<open>not x\<close> and \<open>x and y\<close> test it.\<close>

fun truthy :: "json \<Rightarrow> bool" where
  "truthy JNull = False"
| "truthy (JBool b) = b"
| "truthy (JInt n) = (n \<noteq> 0)"
| "truthy (JFloat q) = (q \<noteq> 0)"
| "truthy (JStr s) = (s \<noteq> [])"
| "truthy (JList xs) = (xs \<noteq> [])"
| "truthy (JObj kvs) = (kvs \<noteq> [])"

text \<open>\<open>x.get(k)\<close> and \<open>x.get(k, d)\<close>: only a dict has the method.\<close>

fun py_get_default :: "json \<Rightarrow> string \<Rightarrow> json \<Rightarrow> error + json" where
  "py_get_default (JObj kvs) k d = Inr (case map_of kvs k of None \<Rightarrow> d | Some v \<Rightarrow> v)"
| "py_get_default _ k d = Inl AttributeError"

definition py_get :: "json \<Rightarrow> string \<Rightarrow> error + json" where
  "py_get x k = py_get_default x k JNull"

text \<open>
  \<open>k in x\<close> for a string \<open>k\<close>: key membership in a dict, substring test in a str,
  element membership in a list, \<open>TypeError\<close> for \<open>None\<close>, a bool or a number.
\<close>

fun py_in :: "string \<Rightarrow> json \<Rightarrow> error + bool" where
  "py_in k (JObj kvs) = Inr (map_of kvs k \<noteq> None)"
| "py_in k (JStr s) = Inr (sublist k s)"
| "py_in k (JList xs) = Inr (List.member xs (JStr k))"
| "py_in k _ = Inl TypeError"

text \<open>
  \<open>x[k]\<close> for a string \<open>k\<close>: \<open>KeyError\<close> for a dict without the key, \<open>TypeError\<close> for
  everything that is not a dict (str and list indices must be integers, the others
  are not subscriptable).
\<close>

fun py_getitem :: "json \<Rightarrow> string \<Rightarrow> error + json" where
  "py_getitem (JObj kvs) k = (case map_of kvs k of None \<Rightarrow> Inl KeyError | Some v \<Rightarrow> Inr v)"
| "py_getitem _ k = Inl TypeError"

text \<open>A byte that continues a UTF-8 sequence (\<open>10xxxxxx\<close>).\<close>

definition utf8_cont :: "char \<Rightarrow> bool" where
  "utf8_cont c = (128 \<le> (of_char c :: nat) \<and> (of_char c :: nat) < 192)"

text \<open>
  \<open>x[0]\<close>: the first element of a list, the first character of a str, \<open>KeyError\<close> for
  a dict (its keys are strings), \<open>TypeError\<close> otherwise.
\<close>

fun py_item0 :: "json \<Rightarrow> error + json" where
  "py_item0 (JList []) = Inl IndexError"
| "py_item0 (JList (x # xs)) = Inr x"
| "py_item0 (JStr []) = Inl IndexError"
| "py_item0 (JStr (c # cs)) = Inr (JStr (c # takeWhile utf8_cont cs))"
| "py_item0 (JObj kvs) = Inl KeyError"
| "py_item0 _ = Inl TypeError"

fun py_len :: "json \<Rightarrow> error + nat" where
  "py_len (JList xs) = Inr (length xs)"
| "py_len (JStr s) = Inr (length (filter (\<lambda>c. \<not> utf8_cont c) s))"
| "py_len (JObj kvs) = Inr (length (remdups (map fst kvs)))"
| "py_len _ = Inl TypeError"



text \<open>\<open>str(n)\<close> of an int: its decimal digits.\<close>

function digits :: "int \<Rightarrow> string" where
  "digits n =
     (if n < 10 then [''0123456789'' ! nat n]
      else digits (n div 10) @ [''0123456789'' ! nat (n mod 10)])"
  by pat_completeness auto
termination
  by (relation "measure nat") auto

declare digits.simps [simp del]

definition py_str_int :: "int \<Rightarrow> string" where
  "py_str_int n = (if n < 0 then CHR ''-'' # digits (- n) else digits n)"

text \<open>An environment variable that may be unset: \<open>os.environ.get\<close> gives \<open>None\<close> then.\<close>

definition opt_json :: "string option \<Rightarrow> json" where
  "opt_json v = (case v of None \<Rightarrow> JNull | Some s \<Rightarrow> JStr s)"

text \<open>\<open>f"{v}"\<close> of such a value: \<open>None\<close> is printed as the text None.\<close>

definition py_format_opt :: "string option \<Rightarrow> string" where
  "py_format_opt v = (case v of None \<Rightarrow> ''None'' | Some s \<Rightarrow> s)"

section \<open>hashlib.md5\<close>

text \<open>
  \<open>hashlib.md5(b).hexdigest()\<close> is the MD5 message digest of RFC 1321, written in
  lower-case hexadecimal. It works on 32-bit words, little-endian.
\<close>

type_synonym u8 = "8 word"
type_synonym u32 = "32 word"

definition md5_K :: "u32 list" where
  "md5_K =
    [0xd76aa478, 0xe8c7b756, 0x242070db, 0xc1bdceee, 0xf57c0faf, 0x4787c62a, 0xa8304613, 0xfd469501,
     0x698098d8, 0x8b44f7af, 0xffff5bb1, 0x895cd7be, 0x6b901122, 0xfd987193, 0xa679438e, 0x49b40821,
     0xf61e2562, 0xc040b340, 0x265e5a51, 0xe9b6c7aa, 0xd62f105d, 0x02441453, 0xd8a1e681, 0xe7d3fbc8,
     0x21e1cde6, 0xc33707d6, 0xf4d50d87, 0x455a14ed, 0xa9e3e905, 0xfcefa3f8, 0x676f02d9, 0x8d2a4c8a,
     0xfffa3942, 0x8771f681, 0x6d9d6122, 0xfde5380c, 0xa4beea44, 0x4bdecfa9, 0xf6bb4b60, 0xbebfbc70,
     0x289b7ec6, 0xeaa127fa, 0xd4ef3085, 0x04881d05, 0xd9d4d039, 0xe6db99e5, 0x1fa27cf8, 0xc4ac5665,
     0xf4292244, 0x432aff97, 0xab9423a7, 0xfc93a039, 0x655b59c3, 0x8f0ccc92, 0xffeff47d, 0x85845dd1,
     0x6fa87e4f, 0xfe2ce6e0, 0xa3014314, 0x4e0811a1, 0xf7537e82, 0xbd3af235, 0x2ad7d2bb, 0xeb86d391]"

definition md5_S :: "nat list" where
  "md5_S =
    [7, 12, 17, 22, 7, 12, 17, 22, 7, 12, 17, 22, 7, 12, 17, 22,
     5, 9, 14, 20, 5, 9, 14, 20, 5, 9, 14, 20, 5, 9, 14, 20,
     4, 11, 16, 23, 4, 11, 16, 23, 4, 11, 16, 23, 4, 11, 16, 23,
     6, 10, 15, 21, 6, 10, 15, 21, 6, 10, 15, 21, 6, 10, 15, 21]"

definition rotl32 :: "u32 \<Rightarrow> nat \<Rightarrow> u32" where
  "rotl32 x n = push_bit n x OR drop_bit (32 - n) x"

definition md5_F :: "nat \<Rightarrow> u32 \<Rightarrow> u32 \<Rightarrow> u32 \<Rightarrow> u32" where
  "md5_F i b c d =
     (if i < 16 then (b AND c) OR (NOT b AND d)
      else if i < 32 then (d AND b) OR (NOT d AND c)
      else if i < 48 then b XOR c XOR d
      else c XOR (b OR NOT d))"

definition md5_g :: "nat \<Rightarrow> nat" where
  "md5_g i =
     (if i < 16 then i
      else if i < 32 then (5 * i + 1) mod 16
      else if i < 48 then (3 * i + 5) mod 16
      else (7 * i) mod 16)"

fun md5_step :: "u32 list \<Rightarrow> u32 \<times> u32 \<times> u32 \<times> u32 \<Rightarrow> nat \<Rightarrow> u32 \<times> u32 \<times> u32 \<times> u32" where
  "md5_step m (a, b, c, d) i =
     (d, b + rotl32 (a + md5_F i b c d + md5_K ! i + m ! md5_g i) (md5_S ! i), b, c)"

fun le_word :: "u8 list \<Rightarrow> u32" where
  "le_word [] = 0"
| "le_word (b # bs) = ucast b + push_bit 8 (le_word bs)"

fun chunks :: "nat \<Rightarrow> 'a list \<Rightarrow> 'a list list" where
  "chunks n [] = []"
| "chunks n (x # xs) = (if n = 0 then [] else take n (x # xs) # chunks n (drop n (x # xs)))"

fun md5_block :: "u32 \<times> u32 \<times> u32 \<times> u32 \<Rightarrow> u8 list \<Rightarrow> u32 \<times> u32 \<times> u32 \<times> u32" where
  "md5_block (a0, b0, c0, d0) blk =
     (case foldl (md5_step (map le_word (chunks 4 blk))) (a0, b0, c0, d0) [0..<64] of
        (a, b, c, d) \<Rightarrow> (a0 + a, b0 + b, c0 + c, d0 + d))"

definition le_bytes :: "nat \<Rightarrow> 'a::len word \<Rightarrow> u8 list" where
  "le_bytes k w = map (\<lambda>i. ucast (drop_bit (8 * i) w)) [0..<k]"

definition md5_pad :: "u8 list \<Rightarrow> u8 list" where
  "md5_pad bs =
     bs @ [0x80] @ replicate ((119 - length bs mod 64) mod 64) 0
        @ le_bytes 8 (8 * of_nat (length bs) :: 64 word)"

definition hex_digit :: "u8 \<Rightarrow> char" where
  "hex_digit n = ''0123456789abcdef'' ! unat n"

definition hex_byte :: "u8 \<Rightarrow> string" where
  "hex_byte b = [hex_digit (drop_bit 4 b), hex_digit (b AND 0x0f)]"

definition md5_digest :: "u8 list \<Rightarrow> u8 list" where
  "md5_digest bs =
     (case foldl md5_block (0x67452301, 0xefcdab89, 0x98badcfe, 0x10325476)
             (chunks 64 (md5_pad bs)) of
        (a, b, c, d) \<Rightarrow> concat (map (le_bytes 4) [a, b, c, d]))"

definition md5_hexdigest :: "bytes \<Rightarrow> string" where
  "md5_hexdigest s = concat (map hex_byte (md5_digest (map of_char s)))"

section \<open>Configuration, the outside world and the state\<close>

text \<open>
  The module constants, read from the environment when the module is loaded; each
  is \<open>None\<close> when its variable is unset.
\<close>

record config =
  IMOU_APP_ID :: "string option"
  IMOU_APP_SECRET :: "string option"
  IMOU_DEVICE_ID :: "string option"
  GOOGLE_DRIVE_FOLDER_ID :: "string option"
  GOOGLE_CREDENTIALS_JSON :: "string option"

definition IMOU_API_URL :: string where
  "IMOU_API_URL = ''https://openapi.easy4ip.com/openapi''"

text \<open>The fields of \<open>datetime.now()\<close> that the program formats.\<close>

record datetime =
  year :: int
  month :: int
  day :: int
  hour :: int
  minute :: int

text \<open>
  What the program does not decide itself:
  \<^item> \<open>http_post url payload\<close>: \<open>requests.post(url, json=payload, headers=...)\<close> followed by
    \<open>response.json()\<close>, the parsed body or the exception of either call;
  \<^item> \<open>http_get url timeout\<close>: \<open>requests.get(url, timeout=timeout)\<close>, the status code and
    the body of the response, or the exception (a timeout, a connection error);
  \<^item> \<open>token_time_ms\<close>, \<open>snapshot_time_ms\<close>: \<open>int(time.time() * 1000)\<close> in the two steps;
    \<open>now\<close>: \<open>datetime.now()\<close> in \<open>main\<close>;
  \<^item> \<open>json_loads\<close>, \<open>from_service_account_info\<close>, \<open>build\<close>: the three library calls that
    prepare the Drive client, each of which may raise;
  \<^item> \<open>open_wb path\<close>: the exception of \<open>open(path, 'wb')\<close>, if it raises;
  \<^item> \<open>drive_create metadata media\<close>: \<open>service.files().create(...).execute()\<close>, the
    created file's description or the exception.
\<close>

record world =
  http_post :: "string \<Rightarrow> json \<Rightarrow> error + json"
  http_get :: "json \<Rightarrow> int \<Rightarrow> error + int \<times> bytes"
  token_time_ms :: int
  snapshot_time_ms :: int
  now :: datetime
  json_loads :: "string \<Rightarrow> error + json"
  from_service_account_info :: "json \<Rightarrow> string list \<Rightarrow> error + unit"
  build :: "string \<Rightarrow> string \<Rightarrow> error + unit"
  open_wb :: "string \<Rightarrow> error option"
  drive_create :: "json \<Rightarrow> bytes \<Rightarrow> error + json"

text \<open>What the program does to the outside world, in order.\<close>

datatype event =
    HttpPost string json
  | HttpGet json int
  | FileWrite string bytes
  | DriveCreate json bytes
  | FileRemove string

text \<open>The state: the files on disk and the calls made so far.\<close>

record state =
  fs :: "string \<rightharpoonup> bytes"
  trace :: "event list"

definition emit :: "event \<Rightarrow> state \<Rightarrow> state" where
  "emit ev st = st\<lparr>trace := trace st @ [ev]\<rparr>"

section \<open>Step 1: get_imou_access_token\<close>

text \<open>
  Lines 29 to 42: the system parameters with the signature
  \<open>md5(f"{time_ms}{nonce}{IMOU_APP_SECRET}")\<close>, where \<open>nonce = time_ms\<close>. The dict is
  created with an empty \<open>sign\<close>, which is then assigned.
\<close>

definition token_system_params :: "config \<Rightarrow> string \<Rightarrow> (string \<times> json) list" where
  "token_system_params cfg time_ms =
     (let system_params =
            [(''ver'', JStr ''1.0''),
             (''sign'', JStr []),
             (''appId'', opt_json (IMOU_APP_ID cfg)),
             (''time'', JStr time_ms)];
          nonce = time_ms;
          sign_string = time_ms @ nonce @ py_format_opt (IMOU_APP_SECRET cfg);
          signature = md5_hexdigest sign_string
      in AList.update ''sign'' (JStr signature) system_params)"

text \<open>Lines 44 to 47.\<close>

definition token_payload :: "config \<Rightarrow> string \<Rightarrow> json" where
  "token_payload cfg time_ms =
     JObj [(''system'', JObj (token_system_params cfg time_ms)), (''params'', JObj [])]"

text \<open>
  Line 59: \<open>data.get('code') == '0' or data.get('result', {}).get('code') == '0'\<close>; the
  second test is evaluated only when the first is false.
\<close>

definition token_code_ok :: "json \<Rightarrow> error + bool" where
  "token_code_ok data =
     bindE (py_get data ''code'') (\<lambda>c.
       if c = JStr ''0'' then Inr True
       else bindE (py_get_default data ''result'' (JObj [])) (\<lambda>r.
              bindE (py_get r ''code'') (\<lambda>c'. Inr (c' = JStr ''0''))))"

definition token_not_found_msg :: string where
  "token_not_found_msg = ''Token nebyl nalezen v odpov'' @ [CHR 0xC4, CHR 0x9B] @ ''di: ''"

definition token_error_msg :: string where
  "token_error_msg =
     ''Chyba p'' @ [CHR 0xC5, CHR 0x99] @ ''i z'' @ [CHR 0xC3, CHR 0xAD] @ ''sk''
       @ [CHR 0xC3, CHR 0xA1] @ ''v'' @ [CHR 0xC3, CHR 0xA1] @ ''n'' @ [CHR 0xC3, CHR 0xAD]
       @ '' tokenu: ''"

text \<open>Lines 61 to 66, the branch taken when the test of line 59 holds.\<close>

definition token_extract :: "json \<Rightarrow> error + json" where
  "token_extract data =
     bindE (py_in ''result'' data) (\<lambda>has_result.
       bindE (if has_result
              then bindE (py_getitem data ''result'') (\<lambda>r. py_in ''accessToken'' r)
              else Inr False) (\<lambda>nested.
         if nested
         then bindE (py_getitem data ''result'') (\<lambda>r. py_getitem r ''accessToken'')
         else bindE (py_in ''accessToken'' data) (\<lambda>flat.
                if flat then py_getitem data ''accessToken''
                else Inl (Exception [Lit token_not_found_msg, Fmt data]))))"

text \<open>Lines 59 to 68: what the function does with the parsed response.\<close>

definition token_of_response :: "json \<Rightarrow> error + json" where
  "token_of_response data =
     bindE (token_code_ok data) (\<lambda>ok.
       if ok then token_extract data
       else Inl (Exception [Lit token_error_msg, Fmt data]))"

text \<open>The whole function; \<open>time_ms\<close> is \<open>str(int(time.time() * 1000))\<close>.\<close>

definition get_imou_access_token ::
    "world \<Rightarrow> config \<Rightarrow> string \<Rightarrow> state \<Rightarrow> (error + json) \<times> state" where
  "get_imou_access_token w cfg time_ms st =
     (let url = IMOU_API_URL @ ''/accessToken'';
          payload = token_payload cfg time_ms;
          st1 = emit (HttpPost url payload) st
      in case http_post w url payload of
           Inl e \<Rightarrow> (Inl e, st1)
         | Inr data \<Rightarrow> (token_of_response data, st1))"

section \<open>Step 2: get_device_snapshot\<close>

text \<open>Lines 76 to 81: the signature is computed inside the dict display.\<close>

definition snapshot_system_params :: "config \<Rightarrow> string \<Rightarrow> (string \<times> json) list" where
  "snapshot_system_params cfg time_ms =
     [(''ver'', JStr ''1.0''),
      (''appId'', opt_json (IMOU_APP_ID cfg)),
      (''time'', JStr time_ms),
      (''sign'', JStr (md5_hexdigest (time_ms @ time_ms @ py_format_opt (IMOU_APP_SECRET cfg))))]"

text \<open>Lines 83 to 90.\<close>

definition snapshot_payload :: "config \<Rightarrow> string \<Rightarrow> json \<Rightarrow> json" where
  "snapshot_payload cfg time_ms access_token =
     JObj [(''system'', JObj (snapshot_system_params cfg time_ms)),
           (''params'', JObj [(''token'', access_token),
                             (''deviceId'', opt_json (IMOU_DEVICE_ID cfg)),
                             (''channelId'', JStr ''0'')])]"

text \<open>
  Line 103: \<open>data.get('code') == '0' or (data.get('result') and
  data['result'].get('code') == '0')\<close>.
\<close>

definition snapshot_code_ok :: "json \<Rightarrow> error + bool" where
  "snapshot_code_ok data =
     bindE (py_get data ''code'') (\<lambda>c.
       if c = JStr ''0'' then Inr True
       else bindE (py_get data ''result'') (\<lambda>r.
              if truthy r
              then bindE (py_getitem data ''result'') (\<lambda>r'.
                     bindE (py_get r' ''code'') (\<lambda>c'. Inr (c' = JStr ''0'')))
              else Inr False))"

definition url_not_found_msg :: string where
  "url_not_found_msg =
     ''URL sn'' @ [CHR 0xC3, CHR 0xAD] @ ''mku nebyla nalezena v odpov''
       @ [CHR 0xC4, CHR 0x9B] @ ''di: ''"

definition snapshot_error_msg :: string where
  "snapshot_error_msg =
     ''Chyba p'' @ [CHR 0xC5, CHR 0x99] @ ''i z'' @ [CHR 0xC3, CHR 0xAD] @ ''sk''
       @ [CHR 0xC3, CHR 0xA1] @ ''v'' @ [CHR 0xC3, CHR 0xA1] @ ''n'' @ [CHR 0xC3, CHR 0xAD]
       @ '' sn'' @ [CHR 0xC3, CHR 0xAD] @ ''mku: ''"

text \<open>Lines 105 to 112, the branch taken when the test of line 103 holds.\<close>

definition snapshot_extract :: "json \<Rightarrow> error + json" where
  "snapshot_extract data =
     bindE (py_get_default data ''result'' data) (\<lambda>result.
       bindE (py_in ''url'' result) (\<lambda>has_url.
         if has_url then py_getitem result ''url''
         else bindE (py_in ''snapshots'' result) (\<lambda>has_snapshots.
                bindE (if has_snapshots
                       then bindE (py_getitem result ''snapshots'') (\<lambda>s.
                              bindE (py_len s) (\<lambda>n. Inr (n > 0)))
                       else Inr False) (\<lambda>nonempty.
                  if nonempty
                  then bindE (py_getitem result ''snapshots'') (\<lambda>s.
                         bindE (py_item0 s) (\<lambda>first. py_get first ''url''))
                  else Inl (Exception [Lit url_not_found_msg, Fmt data])))))"

text \<open>Lines 103 to 112 and 121 to 122: the image URL, or the exception.\<close>

definition snapshot_image_url :: "json \<Rightarrow> error + json" where
  "snapshot_image_url data =
     bindE (snapshot_code_ok data) (\<lambda>ok.
       if ok then snapshot_extract data
       else Inl (Exception [Lit snapshot_error_msg, Fmt data]))"

text \<open>
  \<open>Response.raise_for_status()\<close> of the requests library raises \<open>HTTPError\<close> for a
  status code from 400 to 599 (client and server errors) and returns otherwise.
\<close>

definition raise_for_status :: "int \<Rightarrow> error + unit" where
  "raise_for_status status_code =
     (if 400 \<le> status_code \<and> status_code < 600 then Inl (HTTPError status_code) else Inr ())"

text \<open>The whole function.\<close>

definition get_device_snapshot ::
    "world \<Rightarrow> config \<Rightarrow> string \<Rightarrow> json \<Rightarrow> state \<Rightarrow> (error + bytes) \<times> state" where
  "get_device_snapshot w cfg time_ms access_token st =
     (let url = IMOU_API_URL @ ''/device/snapshot'';
          payload = snapshot_payload cfg time_ms access_token;
          st1 = emit (HttpPost url payload) st
      in case http_post w url payload of
           Inl e \<Rightarrow> (Inl e, st1)
         | Inr data \<Rightarrow>
            (case snapshot_image_url data of
               Inl e \<Rightarrow> (Inl e, st1)
             | Inr image_url \<Rightarrow>
                (let st2 = emit (HttpGet image_url 30) st1
                 in case http_get w image_url 30 of
                      Inl e \<Rightarrow> (Inl e, st2)
                    | Inr (status_code, content) \<Rightarrow>
                       (case raise_for_status status_code of
                          Inl e \<Rightarrow> (Inl e, st2)
                        | Inr u \<Rightarrow> (Inr content, st2)))))"

section \<open>Step 3: upload_to_google_drive\<close>

text \<open>
  Lines 128 to 166. The temporary file is written at line 140, read again by the
  upload (\<open>MediaFileUpload\<close> is given its path) and removed at line 166, the last
  statement of the function. \<open>file.get('id')\<close> and \<open>file.get('webViewLink', 'N/A')\<close> of
  lines 162 and 163 are evaluated for the two messages printed before the removal.
\<close>

definition upload_to_google_drive ::
    "world \<Rightarrow> config \<Rightarrow> bytes \<Rightarrow> string \<Rightarrow> state \<Rightarrow> (error + unit) \<times> state" where
  "upload_to_google_drive w cfg image_data filename st =
     (case (case GOOGLE_CREDENTIALS_JSON cfg of
              None \<Rightarrow> Inl TypeError
            | Some s \<Rightarrow> json_loads w s) of
        Inl e \<Rightarrow> (Inl e, st)
      | Inr creds_dict \<Rightarrow>
         (case from_service_account_info w creds_dict
                 [''https://www.googleapis.com/auth/drive.file''] of
            Inl e \<Rightarrow> (Inl e, st)
          | Inr credentials \<Rightarrow>
             (case build w ''drive'' ''v3'' of
                Inl e \<Rightarrow> (Inl e, st)
              | Inr service \<Rightarrow>
                 (let temp_file = ''/tmp/'' @ filename
                  in case open_wb w temp_file of
                       Some e \<Rightarrow> (Inl e, st)
                     | None \<Rightarrow>
                        (let st1 = emit (FileWrite temp_file image_data)
                                     (st\<lparr>fs := (fs st)(temp_file \<mapsto> image_data)\<rparr>);
                             file_metadata =
                               JObj [(''name'', JStr filename),
                                     (''parents'', JList [opt_json (GOOGLE_DRIVE_FOLDER_ID cfg)])]
                         in case fs st1 temp_file of
                              None \<Rightarrow> (Inl OSError, st1)
                            | Some media \<Rightarrow>
                               (let st2 = emit (DriveCreate file_metadata media) st1
                                in case drive_create w file_metadata media of
                                     Inl e \<Rightarrow> (Inl e, st2)
                                   | Inr file \<Rightarrow>
                                      (case bindE (py_get file ''id'') (\<lambda>i.
                                              py_get_default file ''webViewLink'' (JStr ''N/A'')) of
                                         Inl e \<Rightarrow> (Inl e, st2)
                                       | Inr link \<Rightarrow>
                                          (case fs st2 temp_file of
                                             None \<Rightarrow> (Inl OSError, st2)
                                           | Some content \<Rightarrow>
                                              (Inr (),
                                               emit (FileRemove temp_file)
                                                 (st2\<lparr>fs := (fs st2)(temp_file := None)\<rparr>))))))))))"

section \<open>main\<close>

text \<open>A decimal number padded with zeros on the left to a width.\<close>

definition zero_pad :: "nat \<Rightarrow> int \<Rightarrow> string" where
  "zero_pad width n = replicate (width - length (digits n)) (CHR ''0'') @ digits n"

text \<open>
  \<open>strftime\<close> for the directives the program uses. \<open>%Y\<close> is the year in decimal, as
  the C library prints it: a year from 1000 to 9999 has its four digits and a
  year below 1000 is not padded (\<open>999\<close>, as CPython 3.11 on glibc prints it).
  \<open>%m\<close>, \<open>%d\<close>, \<open>%H\<close> and \<open>%M\<close> are two digits each, \<open>%%\<close> is a percent sign. Any
  other directive is copied as it stands. The year of a \<open>datetime\<close> is between 1
  and 9999.
\<close>

definition directive :: "datetime \<Rightarrow> char \<Rightarrow> string" where
  "directive dt c =
     (if c = CHR ''Y'' then digits (year dt)
      else if c = CHR ''m'' then zero_pad 2 (month dt)
      else if c = CHR ''d'' then zero_pad 2 (day dt)
      else if c = CHR ''H'' then zero_pad 2 (hour dt)
      else if c = CHR ''M'' then zero_pad 2 (minute dt)
      else if c = CHR ''%'' then ''%''
      else [CHR ''%'', c])"

fun strftime :: "datetime \<Rightarrow> string \<Rightarrow> string" where
  "strftime dt [] = []"
| "strftime dt [c] = [c]"
| "strftime dt (c # d # cs) =
     (if c = CHR ''%'' then directive dt d @ strftime dt cs
      else c # strftime dt (d # cs))"

text \<open>Lines 201 and 202.\<close>

definition timelapse_filename :: "datetime \<Rightarrow> string" where
  "timelapse_filename dt = ''timelapse_'' @ strftime dt ''%Y-%m-%d_%H-%M'' @ ''.jpg''"






section \<open>The response shapes the specification speaks of\<close>

text \<open>
  The specification names two shapes of a vendor response: the flat one, with
  \<open>code\<close> and \<open>accessToken\<close> at the top level, and the nested one, with both under
  \<open>result\<close>. \<open>flat_field k\<close> and \<open>nested_field k\<close> read the field \<open>k\<close> in the one and in
  the other shape; a response that is not an object has neither.
\<close>

definition flat_field :: "string \<Rightarrow> json \<Rightarrow> json option" where
  "flat_field k data = (case data of JObj kvs \<Rightarrow> map_of kvs k | _ \<Rightarrow> None)"

definition nested_field :: "string \<Rightarrow> json \<Rightarrow> json option" where
  "nested_field k data =
     (case data of
        JObj kvs \<Rightarrow> (case map_of kvs ''result'' of Some (JObj r) \<Rightarrow> map_of r k | _ \<Rightarrow> None)
      | _ \<Rightarrow> None)"

text \<open>The status code indicates success: it is the string 0 in one of the shapes.\<close>

definition code_success :: "json \<Rightarrow> bool" where
  "code_success data =
     (flat_field ''code'' data = Some (JStr ''0'') \<or> nested_field ''code'' data = Some (JStr ''0''))"

text \<open>The response is an object, and its \<open>result\<close> member, when present, is an object.\<close>

definition result_absent_or_object :: "json \<Rightarrow> bool" where
  "result_absent_or_object data =
     (case data of
        JObj kvs \<Rightarrow>
          (case map_of kvs ''result'' of
             None \<Rightarrow> True
           | Some (JObj r) \<Rightarrow> True
           | Some _ \<Rightarrow> False)
      | _ \<Rightarrow> False)"

section \<open>Concrete inputs\<close>

definition example_config :: config where
  "example_config =
     \<lparr>IMOU_APP_ID = Some ''app'', IMOU_APP_SECRET = Some ''secret'',
      IMOU_DEVICE_ID = Some ''device'', GOOGLE_DRIVE_FOLDER_ID = Some ''folder'',
      GOOGLE_CREDENTIALS_JSON = Some ''{}''\<rparr>"

text \<open>
  A world that answers the token request, the snapshot request, the image download
  and the upload as given, at the clock value 2024-05-01 14:07.
\<close>

definition example_world ::
    "(error + json) \<Rightarrow> (error + json) \<Rightarrow> (error + int \<times> bytes) \<Rightarrow> (error + json) \<Rightarrow> world" where
  "example_world token_answer snapshot_answer download upload =
     \<lparr>http_post = (\<lambda>url payload.
         if url = IMOU_API_URL @ ''/accessToken'' then token_answer else snapshot_answer),
      http_get = (\<lambda>url timeout. download),
      token_time_ms = 1714572420000,
      snapshot_time_ms = 1714572421000,
      now = \<lparr>year = 2024, month = 5, day = 1, hour = 14, minute = 7\<rparr>,
      json_loads = (\<lambda>s. Inr (JObj [])),
      from_service_account_info = (\<lambda>info scopes. Inr ()),
      build = (\<lambda>name version. Inr ()),
      open_wb = (\<lambda>path. None),
      drive_create = (\<lambda>metadata media. upload)\<rparr>"

definition empty_state :: state where
  "empty_state = \<lparr>fs = Map.empty, trace = []\<rparr>"

definition error_response :: json where
  "error_response =
     JObj [(''result'', JObj [(''code'', JStr ''TK1002''), (''msg'', JStr ''invalid'')])]"

definition token_response :: json where
  "token_response = JObj [(''accessToken'', JStr ''tok''), (''code'', JStr ''0'')]"


definition tokenless_response :: json where
  "tokenless_response = JObj [(''code'', JStr ''0''), (''msg'', JStr ''ok'')]"

definition null_result_response :: json where
  "null_result_response = JObj [(''code'', JStr ''0''), (''result'', JNull)]"

definition url_response :: json where
  "url_response =
     JObj [(''result'', JObj [(''url'', JStr ''https://cdn.example/s.jpg''), (''code'', JStr ''0'')])]"

definition created_file :: json where
  "created_file = JObj [(''id'', JStr ''f1''), (''name'', JStr ''timelapse_2024-05-01_14-07.jpg'')]"




section \<open>Basic facts\<close>

lemma bindE_Inl [simp]: "bindE (Inl e) f = Inl e"
  by (simp add: bindE_def)

lemma bindE_Inr [simp]: "bindE (Inr v) f = f v"
  by (simp add: bindE_def)


lemma emit_simps [simp]: "fs (emit ev st) = fs st" "trace (emit ev st) = trace st @ [ev]"
  by (simp_all add: emit_def)







section \<open>hashlib.md5 on the test suite of RFC 1321\<close>

lemma md5_abc: "md5_hexdigest ''abc'' = ''900150983cd24fb0d6963f7d28e17f72''"
  by code_simp

lemma md5_two_blocks:
  "md5_hexdigest
     ''12345678901234567890123456789012345678901234567890123456789012345678901234567890'' =
   ''57edf4a22be3c955ac49da2e2107b67a''"
  by code_simp

lemma md5_example:
  "md5_hexdigest ''17145724200001714572420000secret'' = ''293526518946b601158b6a7054177d27''"
  by code_simp

lemma py_str_int_example: "py_str_int 1714572420000 = ''1714572420000''"
  by code_simp

section \<open>The success test of the two steps\<close>

lemma token_code_ok_obj:
  "token_code_ok (JObj kvs) =
     (if map_of kvs ''code'' = Some (JStr ''0'') then Inr True
      else case map_of kvs ''result'' of
             None \<Rightarrow> Inr False
           | Some (JObj r) \<Rightarrow> Inr (map_of r ''code'' = Some (JStr ''0''))
           | Some _ \<Rightarrow> Inl AttributeError)"
  by (auto simp: token_code_ok_def py_get_def split: option.splits json.splits)

lemma snapshot_code_ok_obj:
  "snapshot_code_ok (JObj kvs) =
     (if map_of kvs ''code'' = Some (JStr ''0'') then Inr True
      else case map_of kvs ''result'' of
             None \<Rightarrow> Inr False
           | Some (JObj r) \<Rightarrow> Inr (map_of r ''code'' = Some (JStr ''0''))
           | Some v \<Rightarrow> (if truthy v then Inl AttributeError else Inr False))"
  by (auto simp: snapshot_code_ok_def py_get_def split: option.splits json.splits)



lemma code_success_token_ok: "code_success d \<Longrightarrow> token_code_ok d = Inr True"
  by (cases d)
     (auto simp: code_success_def flat_field_def nested_field_def token_code_ok_obj
        split: option.splits json.splits)








text \<open>The two kinds of failure of the token step on a well-shaped response.\<close>

lemma token_not_found:
  assumes "result_absent_or_object d" and "code_success d"
      and "flat_field ''accessToken'' d = None" and "nested_field ''accessToken'' d = None"
  shows "token_of_response d = Inl (Exception [Lit token_not_found_msg, Fmt d])"
proof -
  from assms(1) obtain kvs where d: "d = JObj kvs"
    by (cases d) (simp_all add: result_absent_or_object_def)
  from assms(2) have ok: "token_code_ok d = Inr True"
    by (rule code_success_token_ok)
  from assms(1,3,4) have "token_extract d = Inl (Exception [Lit token_not_found_msg, Fmt d])"
    by (auto simp: d result_absent_or_object_def flat_field_def nested_field_def token_extract_def
          split: option.splits json.splits)
  with ok show ?thesis
    by (simp add: token_of_response_def)
qed

lemma token_error:
  assumes "result_absent_or_object d" and "\<not> code_success d"
  shows "token_of_response d = Inl (Exception [Lit token_error_msg, Fmt d])"
proof -
  from assms(1) obtain kvs where d: "d = JObj kvs"
    by (cases d) (simp_all add: result_absent_or_object_def)
  from assms have "token_code_ok d = Inr False"
    by (auto simp: d result_absent_or_object_def code_success_def flat_field_def nested_field_def
          token_code_ok_obj split: option.splits json.splits)
  then show ?thesis
    by (simp add: token_of_response_def)
qed

section \<open>A failing step ends the run\<close>





section \<open>The concrete inputs\<close>


lemma error_response_fails: "\<not> code_success error_response"
  by (simp add: code_success_def error_response_def flat_field_def nested_field_def)



lemma url_response_ok: "snapshot_image_url url_response = Inr (JStr ''https://cdn.example/s.jpg'')"
  by (simp add: url_response_def snapshot_image_url_def snapshot_code_ok_obj snapshot_extract_def)



section \<open>The digits of a year\<close>

lemma digits_small: "n < 10 \<Longrightarrow> length (digits n) = 1"
  by (subst digits.simps) simp

lemma digits_large: "10 \<le> n \<Longrightarrow> length (digits n) = Suc (length (digits (n div 10)))"
  by (subst digits.simps) simp

lemma digits_four:
  assumes "1000 \<le> n" and "n \<le> 9999"
  shows "length (digits n) = 4"
proof -
  have 1: "length (digits n) = Suc (length (digits (n div 10)))"
    using assms(1) by (intro digits_large) simp
  have 2: "length (digits (n div 10)) = Suc (length (digits (n div 10 div 10)))"
    using assms(1) by (intro digits_large) simp
  have 3: "length (digits (n div 10 div 10)) = Suc (length (digits (n div 10 div 10 div 10)))"
    using assms(1) by (intro digits_large) simp
  have 4: "length (digits (n div 10 div 10 div 10)) = 1"
    using assms(2) by (intro digits_small) simp
  from 1 2 3 4 show ?thesis by simp
qed

lemma clock_fields:
  "digits 2024 = ''2024''" "zero_pad 2 5 = ''05''" "zero_pad 2 1 = ''01''"
  "zero_pad 2 14 = ''14''" "zero_pad 2 7 = ''07''"
  by code_simp+

section \<open>The claims\<close>

text \<open>
  C1: the temporary file of the upload step is claimed to be gone on every exit
  path. The removal is the last statement of \<open>upload_to_google_drive\<close> and nothing
  guards it: when the upload call raises after the file was written, the function
  ends with that exception and the file is still on disk with the image in it. When
  the upload succeeds, the file is removed.
\<close>

theorem upload_failure_leaves_temp_file:
  "fst (upload_to_google_drive
          (example_world (Inr token_response) (Inr url_response) (Inr (200, ''JPEG''))
             (Inl DriveHttpError))
          example_config ''JPEG'' ''timelapse_2024-05-01_14-07.jpg'' empty_state) =
     Inl DriveHttpError
   \<and> fs (snd (upload_to_google_drive
          (example_world (Inr token_response) (Inr url_response) (Inr (200, ''JPEG''))
             (Inl DriveHttpError))
          example_config ''JPEG'' ''timelapse_2024-05-01_14-07.jpg'' empty_state))
        ''/tmp/timelapse_2024-05-01_14-07.jpg'' = Some ''JPEG''
   \<and> trace (snd (upload_to_google_drive
          (example_world (Inr token_response) (Inr url_response) (Inr (200, ''JPEG''))
             (Inl DriveHttpError))
          example_config ''JPEG'' ''timelapse_2024-05-01_14-07.jpg'' empty_state)) =
       [FileWrite ''/tmp/timelapse_2024-05-01_14-07.jpg'' ''JPEG'',
        DriveCreate (JObj [(''name'', JStr ''timelapse_2024-05-01_14-07.jpg''),
                           (''parents'', JList [JStr ''folder''])]) ''JPEG'']
   \<and> fst (upload_to_google_drive
          (example_world (Inr token_response) (Inr url_response) (Inr (200, ''JPEG''))
             (Inr created_file))
          example_config ''JPEG'' ''timelapse_2024-05-01_14-07.jpg'' empty_state) = Inr ()
   \<and> fs (snd (upload_to_google_drive
          (example_world (Inr token_response) (Inr url_response) (Inr (200, ''JPEG''))
             (Inr created_file))
          example_config ''JPEG'' ''timelapse_2024-05-01_14-07.jpg'' empty_state))
        ''/tmp/timelapse_2024-05-01_14-07.jpg'' = None"
  by (simp add: upload_to_google_drive_def Let_def example_world_def example_config_def
        empty_state_def opt_json_def created_file_def py_get_def)

text \<open>
  C2: for every timestamp string \<open>t\<close> and app secret \<open>s\<close>, the signature of the token
  step is the MD5 hex digest of \<open>t\<close>, \<open>t\<close> again (the nonce) and \<open>s\<close>. It is a function
  of \<open>t\<close> and \<open>s\<close> alone, and it is the \<open>sign\<close> of the request that is sent.
\<close>

theorem token_signature_md5:
  assumes "IMOU_APP_SECRET cfg = Some s"
  shows "map_of (token_system_params cfg t) ''sign'' = Some (JStr (md5_hexdigest (t @ t @ s)))
       \<and> token_payload cfg t =
           JObj [(''system'', JObj [(''ver'', JStr ''1.0''),
                                   (''sign'', JStr (md5_hexdigest (t @ t @ s))),
                                   (''appId'', opt_json (IMOU_APP_ID cfg)),
                                   (''time'', JStr t)]),
                 (''params'', JObj [])]
       \<and> trace (snd (get_imou_access_token w cfg t st)) =
           trace st @ [HttpPost (IMOU_API_URL @ ''/accessToken'') (token_payload cfg t)]"
  using assms
  by (simp add: token_system_params_def token_payload_def Let_def py_format_opt_def
        get_imou_access_token_def split: sum.splits)

theorem token_signature_md5_witness:
  "IMOU_APP_SECRET example_config = Some ''secret''
   \<and> map_of (token_system_params example_config ''1714572420000'') ''sign'' =
       Some (JStr ''293526518946b601158b6a7054177d27'')"
proof -
  have h: "IMOU_APP_SECRET example_config = Some ''secret''"
    by (simp add: example_config_def)
  from token_signature_md5 [OF h, of "''1714572420000''"] show ?thesis
    using h md5_example by simp
qed

text \<open>
  C3: a flat response \<open>{accessToken: x, code: "0"}\<close> and a nested response
  \<open>{result: {accessToken: x, code: "0"}}\<close> both make \<open>get_imou_access_token\<close> return
  \<open>x\<close>, for every token value \<open>x\<close>.
\<close>

theorem token_shapes_agree:
  "fst (get_imou_access_token
          (w\<lparr>http_post := \<lambda>url payload. Inr (JObj [(''accessToken'', x), (''code'', JStr ''0'')])\<rparr>)
          cfg t st) = Inr x
   \<and> fst (get_imou_access_token
          (w\<lparr>http_post := \<lambda>url payload.
                Inr (JObj [(''result'', JObj [(''accessToken'', x), (''code'', JStr ''0'')])])\<rparr>)
          cfg t st) = Inr x"
  by (simp add: get_imou_access_token_def Let_def token_of_response_def token_code_ok_obj
        token_extract_def)




text \<open>
  C5: a response \<open>{result: {url: u, code: "0"}}\<close> and a response
  \<open>{result: {snapshots: [{url: u}], code: "0"}}\<close> give the same image URL \<open>u\<close>, and
  with either \<open>get_device_snapshot\<close> sends its one GET to \<open>u\<close> and returns what that
  download gives.
\<close>

theorem snapshot_shapes_agree:
  "snapshot_image_url (JObj [(''result'', JObj [(''url'', u), (''code'', JStr ''0'')])]) = Inr u
   \<and> snapshot_image_url
       (JObj [(''result'',
               JObj [(''snapshots'', JList [JObj [(''url'', u)]]), (''code'', JStr ''0'')])])
      = Inr u
   \<and> get_device_snapshot
        (w\<lparr>http_post := \<lambda>url payload.
              Inr (JObj [(''result'', JObj [(''url'', u), (''code'', JStr ''0'')])])\<rparr>) cfg t tok st
      = (case http_get w u 30 of
           Inl e \<Rightarrow> Inl e
         | Inr (status_code, content) \<Rightarrow>
             if 400 \<le> status_code \<and> status_code < 600 then Inl (HTTPError status_code)
             else Inr content,
         emit (HttpGet u 30)
           (emit (HttpPost (IMOU_API_URL @ ''/device/snapshot'') (snapshot_payload cfg t tok)) st))
   \<and> get_device_snapshot
        (w\<lparr>http_post := \<lambda>url payload.
              Inr (JObj [(''result'',
                          JObj [(''snapshots'', JList [JObj [(''url'', u)]]),
                                (''code'', JStr ''0'')])])\<rparr>)
          cfg t tok st
      = (case http_get w u 30 of
           Inl e \<Rightarrow> Inl e
         | Inr (status_code, content) \<Rightarrow>
             if 400 \<le> status_code \<and> status_code < 600 then Inl (HTTPError status_code)
             else Inr content,
         emit (HttpGet u 30)
           (emit (HttpPost (IMOU_API_URL @ ''/device/snapshot'') (snapshot_payload cfg t tok)) st))"
  by (auto simp: get_device_snapshot_def Let_def snapshot_image_url_def snapshot_code_ok_obj
        snapshot_extract_def py_get_def raise_for_status_def split: sum.splits prod.splits)

text \<open>
  C6: for a clock whose year has four digits, the file name is \<open>timelapse_\<close>, the
  four digits of the year, the month, the day, the hour and the minute in two
  digits each, and \<open>.jpg\<close>; at the clock value 2024-05-01 14:07 it is
  \<open>timelapse_2024-05-01_14-07.jpg\<close>.
\<close>

theorem filename_from_clock:
  assumes "1000 \<le> year dt" and "year dt \<le> 9999"
  shows "timelapse_filename dt =
           ''timelapse_'' @ digits (year dt) @ ''-'' @ zero_pad 2 (month dt) @ ''-''
             @ zero_pad 2 (day dt) @ ''_'' @ zero_pad 2 (hour dt) @ ''-''
             @ zero_pad 2 (minute dt) @ ''.jpg''
       \<and> length (digits (year dt)) = 4
       \<and> timelapse_filename \<lparr>year = 2024, month = 5, day = 1, hour = 14, minute = 7\<rparr> =
           ''timelapse_2024-05-01_14-07.jpg''"
proof (intro conjI)
  show "timelapse_filename dt =
           ''timelapse_'' @ digits (year dt) @ ''-'' @ zero_pad 2 (month dt) @ ''-''
             @ zero_pad 2 (day dt) @ ''_'' @ zero_pad 2 (hour dt) @ ''-''
             @ zero_pad 2 (minute dt) @ ''.jpg''"
    by (simp add: timelapse_filename_def directive_def)
  show "length (digits (year dt)) = 4"
    using assms by (rule digits_four)
  show "timelapse_filename \<lparr>year = 2024, month = 5, day = 1, hour = 14, minute = 7\<rparr> =
           ''timelapse_2024-05-01_14-07.jpg''"
    by code_simp
qed

theorem filename_from_clock_witness:
  "(1000::int) \<le> year (now (example_world (Inr token_response) (Inr url_response)
                              (Inr (200, ''JPEG'')) (Inr created_file)))
   \<and> year (now (example_world (Inr token_response) (Inr url_response)
                   (Inr (200, ''JPEG'')) (Inr created_file))) \<le> 9999
   \<and> timelapse_filename (now (example_world (Inr token_response) (Inr url_response)
                                 (Inr (200, ''JPEG'')) (Inr created_file))) =
       ''timelapse_2024-05-01_14-07.jpg''"
proof -
  let ?dt = "now (example_world (Inr token_response) (Inr url_response)
                    (Inr (200, ''JPEG'')) (Inr created_file))"
  have h1: "1000 \<le> year ?dt" and h2: "year ?dt \<le> 9999"
    by (simp_all add: example_world_def)
  from filename_from_clock [OF h1 h2] show ?thesis
    using h1 h2 by (simp add: example_world_def clock_fields)
qed

text \<open>
  C7, as claimed: a download that ends with a status outside 200 to 299 makes
  \<open>get_device_snapshot\<close> raise. It does not at the status 304: \<open>raise_for_status\<close>
  raises for the client and server errors only, and the body is returned.
\<close>

theorem download_not_modified_counterexample:
  "\<not> (200 \<le> (304::int) \<and> (304::int) < 300)
   \<and> get_device_snapshot
        (example_world (Inr token_response) (Inr url_response) (Inr (304, ''body''))
           (Inr created_file))
        example_config ''1714572421000'' (JStr ''tok'') empty_state =
      (Inr ''body'',
       emit (HttpGet (JStr ''https://cdn.example/s.jpg'') 30)
         (emit (HttpPost (IMOU_API_URL @ ''/device/snapshot'')
                  (snapshot_payload example_config ''1714572421000'' (JStr ''tok'')))
            empty_state))"
  by (simp add: get_device_snapshot_def Let_def example_world_def url_response_ok
        raise_for_status_def)

text \<open>
  C7, amended: once the image URL is extracted, \<open>get_device_snapshot\<close> sends one GET
  to that URL with the timeout 30. When the GET itself raises (a timeout), the
  function raises that exception; when the status is from 400 to 599, it raises
  \<open>HTTPError\<close>; with every other status it returns the body of the response.
\<close>

theorem download_outcome:
  assumes "http_post w (IMOU_API_URL @ ''/device/snapshot'') (snapshot_payload cfg t tok) =
             Inr data"
      and "snapshot_image_url data = Inr image_url"
  shows "get_device_snapshot w cfg t tok st =
           (case http_get w image_url 30 of
              Inl e \<Rightarrow> Inl e
            | Inr (status_code, content) \<Rightarrow>
                if 400 \<le> status_code \<and> status_code < 600 then Inl (HTTPError status_code)
                else Inr content,
            emit (HttpGet image_url 30)
              (emit (HttpPost (IMOU_API_URL @ ''/device/snapshot'')
                       (snapshot_payload cfg t tok)) st))"
  using assms
  by (auto simp: get_device_snapshot_def Let_def raise_for_status_def
        split: sum.splits prod.splits)

theorem download_outcome_witness:
  "snapshot_image_url url_response = Inr (JStr ''https://cdn.example/s.jpg'')
   \<and> fst (get_device_snapshot
            (example_world (Inr token_response) (Inr url_response) (Inr (200, ''JPEG''))
               (Inr created_file))
            example_config ''1714572421000'' (JStr ''tok'') empty_state) = Inr ''JPEG''
   \<and> fst (get_device_snapshot
            (example_world (Inr token_response) (Inr url_response) (Inr (404, ''gone''))
               (Inr created_file))
            example_config ''1714572421000'' (JStr ''tok'') empty_state) = Inl (HTTPError 404)
   \<and> fst (get_device_snapshot
            (example_world (Inr token_response) (Inr url_response) (Inl RequestException)
               (Inr created_file))
            example_config ''1714572421000'' (JStr ''tok'') empty_state) = Inl RequestException"
proof -
  have h: "http_post (example_world (Inr token_response) (Inr url_response) d u)
             (IMOU_API_URL @ ''/device/snapshot'')
             (snapshot_payload example_config ''1714572421000'' (JStr ''tok'')) = Inr url_response"
    for d u
    by (simp add: example_world_def)
  have g: "http_get (example_world (Inr token_response) (Inr url_response) d u)
             (JStr ''https://cdn.example/s.jpg'') 30 = d" for d u
    by (simp add: example_world_def)
  from download_outcome [OF h url_response_ok, of "Inr (200, ''JPEG'')" "Inr created_file"
         empty_state]
       download_outcome [OF h url_response_ok, of "Inr (404, ''gone'')" "Inr created_file"
         empty_state]
       download_outcome [OF h url_response_ok, of "Inl RequestException" "Inr created_file"
         empty_state]
  show ?thesis
    by (simp add: g url_response_ok)
qed

text \<open>
  C8, as claimed: every token response with a successful status code and no access
  token in either shape ends in an exception whose message holds the response. The
  response \<open>{code: "0", result: null}\<close> is one, and the step ends in the
  \<open>TypeError\<close> of \<open>'accessToken' in data['result']\<close>, which holds no response.
\<close>

theorem token_null_result_counterexample:
  "code_success null_result_response
   \<and> flat_field ''accessToken'' null_result_response = None
   \<and> nested_field ''accessToken'' null_result_response = None
   \<and> fst (get_imou_access_token
            (example_world (Inr null_result_response) (Inr error_response) (Inr (200, ''JPEG''))
               (Inr created_file))
            example_config ''1714572420000'' empty_state) = Inl TypeError"
  by (simp add: code_success_def flat_field_def nested_field_def get_imou_access_token_def Let_def
        example_world_def token_of_response_def token_code_ok_obj token_extract_def
        null_result_response_def)

text \<open>
  C8, amended: for a token response that is an object whose \<open>result\<close> is absent or
  an object, a successful status code without an access token in either shape
  gives the exception whose message is the not-found text followed by the whole
  response, and a failing status code gives the exception whose message is the
  error text followed by the whole response.
\<close>

theorem token_failure_embeds_response:
  assumes "result_absent_or_object d1" and "code_success d1"
      and "flat_field ''accessToken'' d1 = None" and "nested_field ''accessToken'' d1 = None"
      and "http_post w1 (IMOU_API_URL @ ''/accessToken'') (token_payload cfg t) = Inr d1"
      and "result_absent_or_object d2" and "\<not> code_success d2"
      and "http_post w2 (IMOU_API_URL @ ''/accessToken'') (token_payload cfg t) = Inr d2"
  shows "fst (get_imou_access_token w1 cfg t st) =
           Inl (Exception [Lit token_not_found_msg, Fmt d1])
       \<and> fst (get_imou_access_token w2 cfg t st) =
           Inl (Exception [Lit token_error_msg, Fmt d2])"
  using token_not_found [OF assms(1-4)] token_error [OF assms(6,7)] assms(5,8)
  by (simp add: get_imou_access_token_def Let_def)

theorem token_failure_embeds_response_witness:
  "result_absent_or_object tokenless_response \<and> code_success tokenless_response
   \<and> flat_field ''accessToken'' tokenless_response = None
   \<and> nested_field ''accessToken'' tokenless_response = None
   \<and> result_absent_or_object error_response \<and> \<not> code_success error_response
   \<and> fst (get_imou_access_token
            (example_world (Inr tokenless_response) (Inr error_response) (Inr (200, ''JPEG''))
               (Inr created_file))
            example_config ''1714572420000'' empty_state) =
       Inl (Exception [Lit token_not_found_msg, Fmt tokenless_response])
   \<and> fst (get_imou_access_token
            (example_world (Inr error_response) (Inr error_response) (Inr (200, ''JPEG''))
               (Inr created_file))
            example_config ''1714572420000'' empty_state) =
       Inl (Exception [Lit token_error_msg, Fmt error_response])"
proof -
  have h1: "result_absent_or_object tokenless_response"
    and h2: "code_success tokenless_response"
    and h3: "flat_field ''accessToken'' tokenless_response = None"
    and h4: "nested_field ''accessToken'' tokenless_response = None"
    by (simp_all add: tokenless_response_def result_absent_or_object_def code_success_def
          flat_field_def nested_field_def)
  have h5: "http_post (example_world (Inr tokenless_response) (Inr error_response)
                         (Inr (200, ''JPEG'')) (Inr created_file))
              (IMOU_API_URL @ ''/accessToken'') (token_payload example_config ''1714572420000'') =
            Inr tokenless_response"
    by (simp add: example_world_def)
  have h6: "result_absent_or_object error_response"
    by (simp add: error_response_def result_absent_or_object_def)
  have h8: "http_post (example_world (Inr error_response) (Inr error_response)
                         (Inr (200, ''JPEG'')) (Inr created_file))
              (IMOU_API_URL @ ''/accessToken'') (token_payload example_config ''1714572420000'') =
            Inr error_response"
    by (simp add: example_world_def)
  from token_failure_embeds_response
         [OF h1 h2 h3 h4 h5 h6 error_response_fails h8, of empty_state]
  show ?thesis
    using h1 h2 h3 h4 h6 error_response_fails by simp
qed



text \<open>
  C10: the two steps sign their requests by the same formula: for every
  configuration and every timestamp string, the \<open>sign\<close> of the snapshot request is
  the \<open>sign\<close> of the token request, the MD5 hex digest of the timestamp twice and
  the secret.
\<close>

theorem signatures_agree:
  "map_of (snapshot_system_params cfg t) ''sign'' = map_of (token_system_params cfg t) ''sign''
   \<and> map_of (token_system_params cfg t) ''sign'' =
       Some (JStr (md5_hexdigest (t @ t @ py_format_opt (IMOU_APP_SECRET cfg))))"
  by (simp add: snapshot_system_params_def token_system_params_def Let_def)

end
